theory Spec2Isabelle
  imports Main "HOL-Library.Word"
begin

section \<open>Storage backends of fluffy (server/fluffy/backends.py)\<close>

text \<open>
  The module defines four storage backends (\<open>FileBackend\<close>, \<open>S3CommandLineBackend\<close>,
  \<open>KloudlessBackend\<close>, \<open>DebugBackend\<close>), the exception \<open>BackendException\<close>, the registry
  \<open>backends\<close> and \<open>get_backend\<close>. Every \<open>store\<close> method is modelled as a function from the
  state of the outside world to a result and the new state. An exception is the left
  summand of the result.
\<close>

subsection \<open>Values\<close>

text \<open>
  A Python \<open>str\<close> is a \<^typ>\<open>string\<close>: a list of characters with code points below 256.
  A Python \<open>bytes\<close> object is a list of 8-bit words.
\<close>

type_synonym byte = "8 word"
type_synonym bytes = "byte list"

text \<open>
  The exceptions that the module raises or lets through. \<open>Unsupported_template\<close> is not a
  Python exception: it marks a format string outside the part of \<open>str.format\<close> that is
  modelled (see \<open>resolve_field\<close>), where the model says nothing about the program.
\<close>

datatype exn =
    BackendException (internal_message: string) (display_message: string)
  | NameError string
  | KeyError string
  | IndexError
  | ValueError
  | OSError string
  | RequestException string
  | Unsupported_template string

text \<open>
  The file object of an upload (\<open>stored_file.file\<close>, here \<open>file_obj\<close>): the chunks that
  \<open>chunks()\<close> yields and its \<open>size\<close> (here \<open>file_size\<close>).
\<close>

record uploaded_file =
  chunks :: "bytes list"
  file_size :: int

record stored_file =
  name :: string
  file_obj :: uploaded_file
  info_html :: string

type_synonym options = "string \<rightharpoonup> string"

subsection \<open>Library functions\<close>

text \<open>\<open>str(n)\<close> for an integer, as \<open>"{}".format(n)\<close> prints it.\<close>

definition digit_char :: "nat \<Rightarrow> char" where
  "digit_char d = ''0123456789'' ! d"

fun str_nat :: "nat \<Rightarrow> string" where
  "str_nat n = (if n < 10 then [digit_char n] else str_nat (n div 10) @ [digit_char (n mod 10)])"

declare str_nat.simps [simp del]

definition str_int :: "int \<Rightarrow> string" where
  "str_int i = (if i < 0 then CHR ''-'' # str_nat (nat (- i)) else str_nat (nat i))"

text \<open>
  \<open>template.format(kw=v)\<close>, the call with one keyword argument. The modelled part of the
  format language: literal text, the doubled braces \<open>{{\<close> and \<open>}}\<close>, and replacement
  fields without conversion, format specification, attribute or index. The field \<open>kw\<close> is
  replaced by \<open>v\<close>; an empty or numeric field asks for a positional argument, and there is
  none (IndexError); any other field is a keyword that was not passed (KeyError). A brace
  that is neither doubled nor part of a field is a ValueError.
\<close>

definition is_digit :: "char \<Rightarrow> bool" where
  "is_digit c = (c \<in> set ''0123456789'')"

definition resolve_field :: "string \<Rightarrow> string \<Rightarrow> string \<Rightarrow> exn + string" where
  "resolve_field kw v f =
     (if list_ex (\<lambda>c. c \<in> set ''{!:[.'') f then Inl (Unsupported_template f)
      else if f = kw then Inr v
      else if list_all is_digit f then
        (if length f \<le> 9 then Inl IndexError else Inl (Unsupported_template f))
      else Inl (KeyError f))"

fun format_text :: "string \<Rightarrow> string \<Rightarrow> string \<Rightarrow> exn + string"
  and format_field :: "string \<Rightarrow> string \<Rightarrow> string \<Rightarrow> string \<Rightarrow> exn + string" where
  "format_text kw v [] = Inr []"
| "format_text kw v (c # cs) =
     (if c = CHR ''{'' then
        (case cs of
           [] \<Rightarrow> Inl ValueError
         | d # ds \<Rightarrow>
             if d = CHR ''{'' then map_sum id ((#) CHR ''{'') (format_text kw v ds)
             else format_field kw v [] cs)
      else if c = CHR ''}'' then
        (case cs of
           [] \<Rightarrow> Inl ValueError
         | d # ds \<Rightarrow>
             if d = CHR ''}'' then map_sum id ((#) CHR ''}'') (format_text kw v ds)
             else Inl ValueError)
      else map_sum id ((#) c) (format_text kw v cs))"
| "format_field kw v acc [] = Inl ValueError"
| "format_field kw v acc (c # cs) =
     (if c = CHR ''}'' then
        (case resolve_field kw v (rev acc) of
           Inl e \<Rightarrow> Inl e
         | Inr s \<Rightarrow> map_sum id ((@) s) (format_text kw v cs))
      else format_field kw v (c # acc) cs)"

definition format_kw :: "string \<Rightarrow> string \<Rightarrow> string \<Rightarrow> exn + string" where
  "format_kw kw template v = format_text kw v template"

definition format_name :: "string \<Rightarrow> string \<Rightarrow> exn + string" where
  "format_name template v = format_kw ''name'' template v"

text \<open>\<open>options[key].format(name=v)\<close>: a missing key is a KeyError.\<close>

definition format_option :: "options \<Rightarrow> string \<Rightarrow> string \<Rightarrow> exn + string" where
  "format_option options key v =
     (case options key of
        None \<Rightarrow> Inl (KeyError key)
      | Some template \<Rightarrow> format_name template v)"

definition options_get :: "options \<Rightarrow> string \<Rightarrow> exn + string" where
  "options_get options key =
     (case options key of None \<Rightarrow> Inl (KeyError key) | Some v \<Rightarrow> Inr v)"

text \<open>\<open>s.encode("utf-8")\<close> for code points below 256: one byte below 128, two bytes above.\<close>

definition utf8_char :: "char \<Rightarrow> bytes" where
  "utf8_char c =
     (let n = (of_char c :: nat)
      in if n < 128 then [of_nat n] else [of_nat (192 + n div 64), of_nat (128 + n mod 64)])"

definition utf8_encode :: "string \<Rightarrow> bytes" where
  "utf8_encode s = concat (map utf8_char s)"

text \<open>
  \<open>pipes.quote\<close> (\<open>shlex.quote\<close>): the empty string becomes two single quotes; a string of
  safe characters only is returned as it is; any other string is wrapped in single quotes,
  each single quote inside it replaced by \<open>'"'"'\<close>.
\<close>

definition safe_char :: "char \<Rightarrow> bool" where
  "safe_char c =
     (c \<in> set ''abcdefghijklmnopqrstuvwxyzABCDEFGHIJKLMNOPQRSTUVWXYZ0123456789_@%+=:,./-'')"

definition quote_char :: "char \<Rightarrow> string" where
  "quote_char c =
     (if c = CHR 0x27 then [CHR 0x27, CHR 0x22, CHR 0x27, CHR 0x22, CHR 0x27] else [c])"

definition quote :: "string \<Rightarrow> string" where
  "quote s =
     (if s = [] then [CHR 0x27, CHR 0x27]
      else if list_all safe_char s then s
      else [CHR 0x27] @ concat (map quote_char s) @ [CHR 0x27])"

subsection \<open>What a shell reads\<close>








subsection \<open>The outside world\<close>

text \<open>
  The HTTP request that \<open>requests.post\<close> sends: the URL, the dictionary serialised into the
  \<open>metadata\<close> form field, the headers, and the \<open>file\<close> part, which is either the upload's
  file object or a pair of a file name and a text.
\<close>

datatype file_part = Upload_part uploaded_file | Named_part string string

record request =
  url :: string
  metadata :: "(string \<times> string) list"
  headers :: "(string \<times> string) list"
  files :: "(string \<times> file_part) list"

record response =
  status_code :: int
  text_of :: string

text \<open>
  Every call that leaves the process is recorded, in order: a line printed, a file opened
  with mode \<open>wb+\<close>, a write to an open file (named by its path), a shell command, a file
  removal, an HTTP request. A call that fails is recorded as well.
\<close>

datatype event =
    Print string
  | Open string
  | Write string bytes
  | System string
  | Remove string
  | Post request

text \<open>
  The local files are kept by the file they are, not by the path that was used to reach
  them: \<open>fs\<close> maps the identity of a file (for instance its canonical path) to its
  content. Which file a path names is for the environment to say (\<open>file_of\<close> below), so
  that two different path strings may name one file.
\<close>

record world =
  fs :: "string \<rightharpoonup> bytes"
  trace :: "event list"




fun posted :: "event list \<Rightarrow> request list" where
  "posted [] = []"
| "posted (Post req # es) = req # posted es"
| "posted (e # es) = posted es"

text \<open>
  What the environment answers. \<open>file_of\<close> gives the identity of the file that a path
  names: two paths name the same file exactly when \<open>file_of\<close> agrees on them. Opening a
  file and writing to it fail with the message of their error or succeed, depending on
  the file system and the arguments; a failed open leaves the files as they are, a failed
  write comes with the content it leaves in the file. \<open>os.system\<close>
  returns a status and leaves the local files as they are; \<open>requests.post\<close> returns a
  response or fails in transport. \<open>get_human_size\<close> is the function of \<open>fluffy.utils\<close>,
  which the module imports. Printing always succeeds, and so does the removal of a file
  that exists.
\<close>

record env =
  file_of :: "string \<Rightarrow> string"
  open_error :: "(string \<rightharpoonup> bytes) \<Rightarrow> string \<Rightarrow> string option"
  write_error :: "(string \<rightharpoonup> bytes) \<Rightarrow> string \<Rightarrow> bytes \<Rightarrow> (string \<times> bytes) option"
  system_status :: "(string \<rightharpoonup> bytes) \<Rightarrow> string \<Rightarrow> int"
  http_post :: "request \<Rightarrow> string + response"
  get_human_size :: "int \<Rightarrow> string"

type_synonym 'a io = "world \<Rightarrow> (exn + 'a) \<times> world"

definition bind_io :: "'a io \<Rightarrow> ('a \<Rightarrow> 'b io) \<Rightarrow> 'b io" where
  "bind_io m f w = (case m w of (Inl e, w') \<Rightarrow> (Inl e, w') | (Inr x, w') \<Rightarrow> f x w')"

definition lift :: "exn + 'a \<Rightarrow> 'a io" where
  "lift r w = (r, w)"

definition record_event :: "event \<Rightarrow> world \<Rightarrow> world" where
  "record_event e w = w\<lparr>trace := trace w @ [e]\<rparr>"

definition py_print :: "string \<Rightarrow> unit io" where
  "py_print s w = (Inr (), record_event (Print s) w)"

text \<open>\<open>open(path, "wb+")\<close>: creates the file that the path names, or truncates it.\<close>

definition open_wb :: "env \<Rightarrow> string \<Rightarrow> unit io" where
  "open_wb env path w =
     (case open_error env (fs w) path of
        Some msg \<Rightarrow> (Inl (OSError msg), record_event (Open path) w)
      | None \<Rightarrow>
          (Inr (), record_event (Open path) (w\<lparr>fs := (fs w)(file_of env path \<mapsto> [])\<rparr>)))"

text \<open>
  \<open>dest.write(b)\<close> on the file opened at \<open>path\<close>: appends. A failed write leaves the file
  with the content that the environment gives with the error: part of the data may have
  reached the file.
\<close>

definition dest_write :: "env \<Rightarrow> string \<Rightarrow> bytes \<Rightarrow> unit io" where
  "dest_write env path b w =
     (case write_error env (fs w) path b of
        Some (msg, left) \<Rightarrow>
          (Inl (OSError msg),
           record_event (Write path b) (w\<lparr>fs := (fs w)(file_of env path \<mapsto> left)\<rparr>))
      | None \<Rightarrow>
          (Inr (),
           record_event (Write path b)
             (w\<lparr>fs := (fs w)(file_of env path \<mapsto>
                (case fs w (file_of env path) of None \<Rightarrow> b | Some c \<Rightarrow> c @ b))\<rparr>)))"

definition os_system :: "env \<Rightarrow> string \<Rightarrow> int io" where
  "os_system env cmd w = (Inr (system_status env (fs w) cmd), record_event (System cmd) w)"

definition os_remove :: "env \<Rightarrow> string \<Rightarrow> unit io" where
  "os_remove env path w =
     (case fs w (file_of env path) of
        None \<Rightarrow> (Inl (OSError ''No such file or directory''), record_event (Remove path) w)
      | Some c \<Rightarrow>
          (Inr (), record_event (Remove path) (w\<lparr>fs := (fs w)(file_of env path := None)\<rparr>)))"

definition requests_post :: "env \<Rightarrow> request \<Rightarrow> response io" where
  "requests_post env req w =
     (case http_post env req of
        Inl msg \<Rightarrow> (Inl (RequestException msg), record_event (Post req) w)
      | Inr resp \<Rightarrow> (Inr resp, record_event (Post req) w))"

text \<open>A \<open>for\<close> loop over a list whose body may raise.\<close>

fun for_each :: "('a \<Rightarrow> unit io) \<Rightarrow> 'a list \<Rightarrow> unit io" where
  "for_each body [] = lift (Inr ())"
| "for_each body (x # xs) = bind_io (body x) (\<lambda>_. for_each body xs)"

text \<open>
  The two writers of a store: the upload chunk by chunk, and the info page encoded as
  UTF-8 (\<open>write_file\<close> and \<open>write_info\<close> of \<open>S3CommandLineBackend.store\<close>; \<open>FileBackend.store\<close>
  has the same two bodies inline). The destination is named by the path it was opened at.
\<close>

definition write_file :: "env \<Rightarrow> stored_file \<Rightarrow> string \<Rightarrow> unit io" where
  "write_file env sf dest = for_each (dest_write env dest) (chunks (file_obj sf))"

definition write_info :: "env \<Rightarrow> stored_file \<Rightarrow> string \<Rightarrow> unit io" where
  "write_info env sf dest = dest_write env dest (utf8_encode (info_html sf))"

text \<open>\<open>with open(path, "wb+") as dest: body(dest)\<close>\<close>

definition with_open :: "env \<Rightarrow> string \<Rightarrow> (string \<Rightarrow> unit io) \<Rightarrow> unit io" where
  "with_open env path body = bind_io (open_wb env path) (\<lambda>_. body path)"

definition display :: string where
  "display = ''Sorry, we weren't able to save your file.''"

subsection \<open>FileBackend\<close>

text \<open>
  The names that the \<open>except\<close> clause of \<open>FileBackend.store\<close> can resolve to an exception
  class of this model: the one exception class of the module, and the built-in class of
  I/O failures with its aliases. The name is looked up only when the \<open>try\<close> body has
  raised; a name that is bound nowhere is a NameError.
\<close>

datatype exn_class = BackendException_class | OSError_class

definition exception_names :: "string \<rightharpoonup> exn_class" where
  "exception_names =
     [''BackendException'' \<mapsto> BackendException_class,
      ''OSError'' \<mapsto> OSError_class,
      ''IOError'' \<mapsto> OSError_class,
      ''EnvironmentError'' \<mapsto> OSError_class]"

text \<open>
  Whether the clause \<open>except c as e\<close> catches an exception, and then the text \<open>str(e)\<close>
  that \<open>"{}".format(e)\<close> gives: the message of an OSError, the internal message of a
  BackendException.
\<close>

fun caught :: "exn \<Rightarrow> exn_class \<Rightarrow> string option" where
  "caught (OSError msg) OSError_class = Some msg"
| "caught (BackendException i d) BackendException_class = Some i"
| "caught e c = None"

text \<open>
  \<open>try: body except <class_name> as e: handler(str(e))\<close>. The class name is evaluated when
  the body has raised.
\<close>

definition try_except :: "unit io \<Rightarrow> string \<Rightarrow> (string \<Rightarrow> unit io) \<Rightarrow> unit io" where
  "try_except body class_name handler w =
     (case body w of
        (Inr u, w') \<Rightarrow> (Inr u, w')
      | (Inl e, w') \<Rightarrow>
          (case exception_names class_name of
             None \<Rightarrow> (Inl (NameError class_name), w')
           | Some c \<Rightarrow>
               (case caught e c of
                  Some text \<Rightarrow> handler text w'
                | None \<Rightarrow> (Inl e, w'))))"

definition FileBackend_store :: "env \<Rightarrow> options \<Rightarrow> stored_file \<Rightarrow> unit io" where
  "FileBackend_store env options stored_file =
     bind_io (lift (format_option options ''file_path'' (name stored_file))) (\<lambda>path.
     bind_io (lift (format_option options ''info_path'' (name stored_file))) (\<lambda>info_path.
     try_except
       (bind_io (py_print (''Writing to '' @ path @ ''...'')) (\<lambda>_.
        bind_io (with_open env path (write_file env stored_file)) (\<lambda>_.
        bind_io (py_print (''Writing info page to '' @ info_path @ ''...'')) (\<lambda>_.
        with_open env info_path (write_info env stored_file)))))
       ''IOException''
       (\<lambda>text. lift (Inl (BackendException (''Received IOException: '' @ text) display)))))"

subsection \<open>S3CommandLineBackend\<close>

text \<open>
  The tuple \<open>files\<close> of \<open>S3CommandLineBackend.store\<close>: the name of each artifact and the
  function that writes it.
\<close>

definition S3_files :: "env \<Rightarrow> stored_file \<Rightarrow> (string \<times> (string \<Rightarrow> unit io)) list" where
  "S3_files env stored_file =
     [(''file'', write_file env stored_file), (''info'', write_info env stored_file)]"

definition aws_cp :: "string \<Rightarrow> string \<Rightarrow> string" where
  "aws_cp path s3 = ''aws s3 cp '' @ quote path @ '' '' @ quote s3"

text \<open>The body of the loop over \<open>files\<close>.\<close>

definition S3_store_artifact ::
    "env \<Rightarrow> options \<Rightarrow> stored_file \<Rightarrow> string \<times> (string \<Rightarrow> unit io) \<Rightarrow> unit io" where
  "S3_store_artifact env options stored_file f =
     bind_io (lift (format_option options (fst f @ ''_name'') (name stored_file))) (\<lambda>nm.
     bind_io (lift (format_option options ''tmp_path'' nm)) (\<lambda>path.
     bind_io (py_print (''Writing temp file '' @ [CHR 0x27] @ nm @ [CHR 0x27] @ '' to ''
                          @ [CHR 0x27] @ path @ [CHR 0x27])) (\<lambda>_.
     bind_io (with_open env path (snd f)) (\<lambda>_.
     bind_io (lift (format_option options (fst f @ ''_s3path'') (name stored_file))) (\<lambda>s3.
     bind_io (py_print (''Uploading to S3 with command: '' @ aws_cp path s3)) (\<lambda>_.
     bind_io (os_system env (aws_cp path s3)) (\<lambda>status.
       if status \<noteq> 0 then
         lift (Inl (BackendException
           (''Received '' @ str_int status @ '' status code for command '' @ aws_cp path s3)
           display))
       else os_remove env path)))))))"

definition S3CommandLineBackend_store :: "env \<Rightarrow> options \<Rightarrow> stored_file \<Rightarrow> unit io" where
  "S3CommandLineBackend_store env options stored_file =
     for_each (S3_store_artifact env options stored_file) (S3_files env stored_file)"

subsection \<open>KloudlessBackend\<close>

definition API_ENDPOINT :: string where
  "API_ENDPOINT = ''https://api.kloudless.com/v0''"

definition API_RESOURCE_FILE :: string where
  "API_RESOURCE_FILE = ''/accounts/{account}/files''"

text \<open>The inner function \<open>upload\<close> of \<open>KloudlessBackend.store\<close>.\<close>

definition upload :: "env \<Rightarrow> options \<Rightarrow> string \<Rightarrow> string \<Rightarrow> file_part \<Rightarrow> unit io" where
  "upload env options nm parent_id part =
     bind_io (lift (options_get options ''account_key'')) (\<lambda>account_key.
     bind_io (lift (options_get options ''account_id'')) (\<lambda>account_id.
     bind_io (lift (format_kw ''account'' (API_ENDPOINT @ API_RESOURCE_FILE) account_id)) (\<lambda>u.
     bind_io (requests_post env
                \<lparr>url = u,
                 metadata = [(''name'', nm), (''parent_id'', parent_id)],
                 headers = [(''Authorization'', ''AccountKey '' @ account_key)],
                 files = [(''file'', part)]\<rparr>) (\<lambda>req.
       if status_code req \<noteq> 201 then
         bind_io (py_print (''Got unexpected status code from Kloudless: ''
                              @ str_int (status_code req))) (\<lambda>_.
         bind_io (py_print (''Response: '' @ text_of req)) (\<lambda>_.
         lift (Inl (BackendException
           (''Received '' @ str_int (status_code req) @ '' status code'') display))))
       else lift (Inr ())))))"

definition Kloudless_files :: "stored_file \<Rightarrow> (string \<times> file_part) list" where
  "Kloudless_files stored_file =
     [(''file'', Upload_part (file_obj stored_file)),
      (''info'', Named_part ''info.html'' (info_html stored_file))]"

definition Kloudless_store_artifact ::
    "env \<Rightarrow> options \<Rightarrow> stored_file \<Rightarrow> string \<times> file_part \<Rightarrow> unit io" where
  "Kloudless_store_artifact env options stored_file f =
     bind_io (lift (format_option options (fst f @ ''_name'') (name stored_file))) (\<lambda>nm.
     bind_io (lift (options_get options (fst f @ ''_parent_id''))) (\<lambda>parent_id.
     upload env options nm parent_id (snd f)))"

definition KloudlessBackend_store :: "env \<Rightarrow> options \<Rightarrow> stored_file \<Rightarrow> unit io" where
  "KloudlessBackend_store env options stored_file =
     bind_io (for_each (Kloudless_store_artifact env options stored_file)
                (Kloudless_files stored_file)) (\<lambda>_.
     py_print ''Done!'')"

subsection \<open>DebugBackend\<close>

definition DebugBackend_store :: "env \<Rightarrow> options \<Rightarrow> stored_file \<Rightarrow> unit io" where
  "DebugBackend_store env options stored_file =
     bind_io (py_print ''Storing file:'') (\<lambda>_.
     bind_io (py_print ([CHR 0x09] @ ''Name: '' @ name stored_file)) (\<lambda>_.
     py_print ([CHR 0x09] @ ''Size: ''
                 @ get_human_size env (file_size (file_obj stored_file)))))"

subsection \<open>The registry and get_backend\<close>

text \<open>A backend instance: its class and the options captured by \<open>__init__\<close>.\<close>

datatype backend =
    FileBackend options
  | S3CommandLineBackend options
  | KloudlessBackend options
  | DebugBackend options

definition backends :: "string \<rightharpoonup> (options \<Rightarrow> backend)" where
  "backends =
     [''file'' \<mapsto> FileBackend,
      ''s3cli'' \<mapsto> S3CommandLineBackend,
      ''kloudless'' \<mapsto> KloudlessBackend,
      ''debug'' \<mapsto> DebugBackend]"

text \<open>\<open>settings.STORAGE_BACKEND\<close>: the configured name and options.\<close>

record storage_backend =
  conf_name :: string
  conf_options :: options

definition get_backend :: "storage_backend \<Rightarrow> exn + backend" where
  "get_backend conf =
     (case backends (conf_name conf) of
        None \<Rightarrow> Inl (KeyError (conf_name conf))
      | Some cls \<Rightarrow> Inr (cls (conf_options conf)))"

text \<open>\<open>backend.store(stored_file)\<close>: the method of the instance's class.\<close>

fun store :: "env \<Rightarrow> backend \<Rightarrow> stored_file \<Rightarrow> unit io" where
  "store env (FileBackend options) = FileBackend_store env options"
| "store env (S3CommandLineBackend options) = S3CommandLineBackend_store env options"
| "store env (KloudlessBackend options) = KloudlessBackend_store env options"
| "store env (DebugBackend options) = DebugBackend_store env options"

subsection \<open>Example inputs\<close>

text \<open>
  An environment in which nothing fails, and variants of it in which one kind of call fails.
  In it the file that a path names is the path with every run of slashes collapsed into
  one slash.
\<close>

fun collapse_slashes :: "string \<Rightarrow> string" where
  "collapse_slashes (c # d # cs) =
     (if c = CHR ''/'' \<and> d = CHR ''/'' then collapse_slashes (d # cs)
      else c # collapse_slashes (d # cs))"
| "collapse_slashes cs = cs"

definition env_ok :: env where
  "env_ok =
     \<lparr>file_of = collapse_slashes,
      open_error = (\<lambda>fs p. None),
      write_error = (\<lambda>fs p b. None),
      system_status = (\<lambda>fs cmd. 0),
      http_post = (\<lambda>req. Inr \<lparr>status_code = 201, text_of = ''created''\<rparr>),
      get_human_size = (\<lambda>n. str_int n @ '' bytes'')\<rparr>"

definition env_open_fails :: "string \<Rightarrow> env" where
  "env_open_fails p =
     env_ok\<lparr>open_error := (\<lambda>fs q. if q = p then Some ''Permission denied'' else None)\<rparr>"




definition env_http :: "int \<Rightarrow> string \<Rightarrow> env" where
  "env_http n body = env_ok\<lparr>http_post := (\<lambda>req. Inr \<lparr>status_code = n, text_of = body\<rparr>)\<rparr>"

definition world0 :: world where
  "world0 = \<lparr>fs = Map.empty, trace = []\<rparr>"

text \<open>
  An environment in which every write to the path \<open>p\<close> fails and leaves the file with the
  content \<open>left\<close>, and a world in which \<open>/data/abc123\<close> holds an older info page.
\<close>

definition env_write_fails :: "string \<Rightarrow> bytes \<Rightarrow> env" where
  "env_write_fails p left =
     env_ok\<lparr>write_error := (\<lambda>fs q b. if q = p then Some (''File too large'', left) else None)\<rparr>"

definition world_old_info :: world where
  "world_old_info = \<lparr>fs = [''/data/abc123'' \<mapsto> map of_char ''OLD INFO PAGE''], trace = []\<rparr>"

text \<open>The upload of the end-to-end scenario, and one with the same name and size.\<close>

definition upload0 :: stored_file where
  "upload0 =
     \<lparr>name = ''abc123'',
      file_obj = \<lparr>chunks = [map of_char ''hello'', map of_char '' test''], file_size = 10\<rparr>,
      info_html = ''<html>info</html>''\<rparr>"

definition upload1 :: stored_file where
  "upload1 =
     \<lparr>name = ''abc123'',
      file_obj = \<lparr>chunks = [], file_size = 10\<rparr>,
      info_html = ''other''\<rparr>"

definition file_options :: options where
  "file_options =
     [''file_path'' \<mapsto> ''/data/files/{name}'',
      ''info_path'' \<mapsto> ''/data/info/{name}.html'']"

text \<open>
  Options whose two templates resolve to the same path, and options whose two templates
  resolve to two paths that name the same file.
\<close>

definition alias_options :: options where
  "alias_options =
     [''file_path'' \<mapsto> ''/data/{name}'',
      ''info_path'' \<mapsto> ''/data//{name}'']"


definition same_path_options :: options where
  "same_path_options =
     [''file_path'' \<mapsto> ''/data/{name}'',
      ''info_path'' \<mapsto> ''/data/{name}'']"



definition kloudless_options :: options where
  "kloudless_options =
     [''account_id'' \<mapsto> ''42'',
      ''account_key'' \<mapsto> ''secret'',
      ''file_name'' \<mapsto> ''{name}'',
      ''info_name'' \<mapsto> ''{name}.html'',
      ''file_parent_id'' \<mapsto> ''folder1'',
      ''info_parent_id'' \<mapsto> ''folder2'']"

section \<open>Properties\<close>

subsection \<open>Basic facts\<close>

lemmas io_defs = bind_io_def lift_def py_print_def record_event_def

lemmas file_defs = FileBackend_store_def format_option_def format_name_def format_kw_def
  resolve_field_def try_except_def with_open_def open_wb_def write_file_def write_info_def
  dest_write_def exception_names_def

lemma map_sum_id_Inl: "map_sum id f x = Inl e \<longleftrightarrow> x = Inl e"
  by (cases x) auto

lemma resolve_field_not_BackendException:
  "resolve_field kw v f \<noteq> Inl (BackendException i d)"
  by (simp add: resolve_field_def)

lemma format_text_not_BackendException:
  "format_text kw v t \<noteq> Inl (BackendException i d)"
  "format_field kw v acc t \<noteq> Inl (BackendException i d)"
proof (induction kw v t and kw v acc t rule: format_text_format_field.induct)
  case (1 kw v)
  show ?case by simp
next
  case (2 kw v c cs)
  then show ?case
    by (auto simp: map_sum_id_Inl split: list.splits)
next
  case (3 kw v acc)
  show ?case by simp
next
  case (4 kw v acc c cs)
  then show ?case
    by (auto simp: map_sum_id_Inl resolve_field_not_BackendException split: sum.splits)
qed

lemma format_option_not_BackendException:
  "format_option options key v \<noteq> Inl (BackendException i d)"
  by (simp add: format_option_def format_name_def format_kw_def
      format_text_not_BackendException split: option.splits)

text \<open>Sequencing.\<close>

lemma bind_io_lift:
  "bind_io (lift r) f w = (case r of Inl e \<Rightarrow> (Inl e, w) | Inr x \<Rightarrow> f x w)"
  by (simp add: bind_io_def lift_def split: sum.splits)

lemma bind_io_print:
  "bind_io (py_print s) f w = f () (record_event (Print s) w)"
  by (simp add: bind_io_def py_print_def)

text \<open>
  What a \<open>with open(...)\<close> block does with each of the two writers: the calls it makes,
  the paths it leaves alone, and the content of the file when it succeeds.
\<close>

lemma for_each_dest_write:
  "for_each (dest_write env p) cs w = (r, w') \<Longrightarrow> fs w (file_of env p) = Some c0 \<Longrightarrow>
     \<exists>k. k \<le> length cs \<and> trace w' = trace w @ map (Write p) (take k cs) \<and>
       (\<forall>q. q \<noteq> file_of env p \<longrightarrow> fs w' q = fs w q) \<and>
       fs w' (file_of env p) \<noteq> None \<and>
       (case r of
          Inr u \<Rightarrow> k = length cs \<and> fs w' (file_of env p) = Some (c0 @ concat cs)
        | Inl e \<Rightarrow> (\<exists>msg. e = OSError msg))"
proof (induction cs arbitrary: w c0)
  case Nil
  then show ?case
    by (auto simp: lift_def)
next
  case (Cons c cs)
  show ?case
  proof (cases "write_error env (fs w) p c")
    case (Some failure)
    obtain msg left where "failure = (msg, left)"
      by (cases failure)
    with Some Cons.prems have "r = Inl (OSError msg)"
      "w' = record_event (Write p c) (w\<lparr>fs := (fs w)(file_of env p \<mapsto> left)\<rparr>)"
      by (auto simp: bind_io_def dest_write_def)
    then show ?thesis
      by (intro exI [of _ 1]) (auto simp: record_event_def)
  next
    case None
    define w1 where "w1 = record_event (Write p c) (w\<lparr>fs := (fs w)(file_of env p \<mapsto> c0 @ c)\<rparr>)"
    from None Cons.prems(2) have "dest_write env p c w = (Inr (), w1)"
      by (simp add: dest_write_def w1_def)
    with Cons.prems have run: "for_each (dest_write env p) cs w1 = (r, w')"
      by (simp add: bind_io_def)
    have t1: "trace w1 = trace w @ [Write p c]" and f1: "fs w1 = (fs w)(file_of env p \<mapsto> c0 @ c)"
      by (simp_all add: w1_def record_event_def)
    from f1 have "fs w1 (file_of env p) = Some (c0 @ c)" by simp
    from Cons.IH [OF run this] obtain k where k: "k \<le> length cs"
      "trace w' = trace w1 @ map (Write p) (take k cs)"
      "\<forall>q. q \<noteq> file_of env p \<longrightarrow> fs w' q = fs w1 q"
      "fs w' (file_of env p) \<noteq> None"
      "case r of
          Inr u \<Rightarrow> k = length cs \<and> fs w' (file_of env p) = Some ((c0 @ c) @ concat cs)
        | Inl e \<Rightarrow> (\<exists>msg. e = OSError msg)"
      by blast
    show ?thesis
    proof (intro exI [of _ "Suc k"] conjI)
      show "Suc k \<le> length (c # cs)" using k(1) by simp
      show "trace w' = trace w @ map (Write p) (take (Suc k) (c # cs))"
        using k(2) t1 by simp
      show "\<forall>q. q \<noteq> file_of env p \<longrightarrow> fs w' q = fs w q"
        using k(3) f1 by simp
      show "fs w' (file_of env p) \<noteq> None" by (rule k(4))
      show "case r of
          Inr u \<Rightarrow> Suc k = length (c # cs) \<and> fs w' (file_of env p) = Some (c0 @ concat (c # cs))
        | Inl e \<Rightarrow> (\<exists>msg. e = OSError msg)"
        using k(5) by (cases r) auto
    qed
  qed
qed

lemma with_open_write_file:
  assumes "with_open env p (write_file env sf) w = (r, w')"
  shows "\<exists>k. k \<le> length (chunks (file_obj sf)) \<and>
       trace w' = trace w @ Open p # map (Write p) (take k (chunks (file_obj sf))) \<and>
       (\<forall>q. q \<noteq> file_of env p \<longrightarrow> fs w' q = fs w q) \<and>
       (case r of
          Inr u \<Rightarrow> k = length (chunks (file_obj sf)) \<and>
            fs w' (file_of env p) = Some (concat (chunks (file_obj sf)))
        | Inl e \<Rightarrow> (\<exists>msg. e = OSError msg))"
proof (cases "open_error env (fs w) p")
  case (Some msg)
  with assms have "r = Inl (OSError msg)" "w' = record_event (Open p) w"
    by (auto simp: with_open_def bind_io_def open_wb_def)
  then show ?thesis
    by (intro exI [of _ 0]) (auto simp: record_event_def)
next
  case None
  define w1 where "w1 = record_event (Open p) (w\<lparr>fs := (fs w)(file_of env p \<mapsto> [])\<rparr>)"
  from None have "open_wb env p w = (Inr (), w1)"
    by (simp add: open_wb_def w1_def)
  with assms have "for_each (dest_write env p) (chunks (file_obj sf)) w1 = (r, w')"
    by (simp add: with_open_def bind_io_def write_file_def)
  moreover have t1: "trace w1 = trace w @ [Open p]" and f1: "fs w1 = (fs w)(file_of env p \<mapsto> [])"
    by (simp_all add: w1_def record_event_def)
  moreover from f1 have "fs w1 (file_of env p) = Some []" by simp
  ultimately obtain k where k: "k \<le> length (chunks (file_obj sf))"
    "trace w' = trace w1 @ map (Write p) (take k (chunks (file_obj sf)))"
    "\<forall>q. q \<noteq> file_of env p \<longrightarrow> fs w' q = fs w1 q"
    "fs w' (file_of env p) \<noteq> None"
    "case r of
          Inr u \<Rightarrow> k = length (chunks (file_obj sf)) \<and>
            fs w' (file_of env p) = Some ([] @ concat (chunks (file_obj sf)))
        | Inl e \<Rightarrow> (\<exists>msg. e = OSError msg)"
    using for_each_dest_write [of env p "chunks (file_obj sf)" w1 r w' "[]"] by blast
  show ?thesis
    using k t1 f1 by (intro exI [of _ k]) (auto split: sum.splits)
qed

lemma with_open_write_info:
  assumes "with_open env p (write_info env sf) w = (r, w')"
  shows "\<exists>evs. (evs = [] \<or> evs = [Write p (utf8_encode (info_html sf))]) \<and>
       trace w' = trace w @ Open p # evs \<and>
       (\<forall>q. q \<noteq> file_of env p \<longrightarrow> fs w' q = fs w q) \<and>
       (fs w (file_of env p) \<noteq> None \<longrightarrow> fs w' (file_of env p) \<noteq> None) \<and>
       (case r of
          Inr u \<Rightarrow> evs \<noteq> [] \<and> fs w' (file_of env p) = Some (utf8_encode (info_html sf))
        | Inl e \<Rightarrow> (\<exists>msg. e = OSError msg))"
proof (cases "open_error env (fs w) p")
  case (Some msg)
  with assms have "r = Inl (OSError msg)" "w' = record_event (Open p) w"
    by (auto simp: with_open_def bind_io_def open_wb_def)
  then show ?thesis
    by (intro exI [of _ "[]"]) (simp add: record_event_def)
next
  case None
  define w1 where "w1 = record_event (Open p) (w\<lparr>fs := (fs w)(file_of env p \<mapsto> [])\<rparr>)"
  define b where "b = utf8_encode (info_html sf)"
  from None have "open_wb env p w = (Inr (), w1)"
    by (simp add: open_wb_def w1_def)
  with assms have run: "dest_write env p b w1 = (r, w')"
    by (simp add: with_open_def bind_io_def write_info_def b_def)
  have t1: "trace w1 = trace w @ [Open p]" and f1: "fs w1 = (fs w)(file_of env p \<mapsto> [])"
    by (simp_all add: w1_def record_event_def)
  show ?thesis
  proof (cases "write_error env (fs w1) p b")
    case (Some failure)
    obtain msg left where "failure = (msg, left)"
      by (cases failure)
    with Some run have "r = Inl (OSError msg)"
      "w' = record_event (Write p b) (w1\<lparr>fs := (fs w1)(file_of env p \<mapsto> left)\<rparr>)"
      by (auto simp: dest_write_def)
    with t1 f1 show ?thesis
      unfolding b_def [symmetric]
      by (intro exI [of _ "[Write p b]"]) (simp add: record_event_def)
  next
    case None
    with run f1 have "r = Inr ()"
      "w' = record_event (Write p b) (w1\<lparr>fs := (fs w1)(file_of env p \<mapsto> b)\<rparr>)"
      by (auto simp: dest_write_def)
    with t1 f1 show ?thesis
      unfolding b_def [symmetric]
      by (intro exI [of _ "[Write p b]"]) (simp add: record_event_def)
  qed
qed

text \<open>
  The \<open>except\<close> clause of \<open>FileBackend.store\<close> names \<open>IOException\<close>, which is bound nowhere:
  whatever the \<open>try\<close> body raises, the clause itself raises a NameError and the handler
  never runs.
\<close>

lemma try_except_IOException:
  "try_except body ''IOException'' handler w =
     (case body w of
        (Inr u, w') \<Rightarrow> (Inr u, w')
      | (Inl e, w') \<Rightarrow> (Inl (NameError ''IOException''), w'))"
  by (simp add: try_except_def exception_names_def split: prod.splits sum.splits)

lemma FileBackend_store_never_BackendException:
  "fst (FileBackend_store env options stored_file w) \<noteq> Inl (BackendException i d)"
  using format_option_not_BackendException [of options _ "name stored_file" i d]
  by (auto simp: FileBackend_store_def try_except_IOException bind_io_def lift_def
      split: prod.splits sum.splits)

text \<open>The body of the \<open>try\<close> statement, once both paths are resolved.\<close>

lemma FileBackend_store_resolved:
  assumes "format_option options ''file_path'' (name sf) = Inr path"
    and "format_option options ''info_path'' (name sf) = Inr info_path"
  shows "FileBackend_store env options sf w =
     (case with_open env path (write_file env sf)
             (record_event (Print (''Writing to '' @ path @ ''...'')) w) of
        (Inl e, w1) \<Rightarrow> (Inl (NameError ''IOException''), w1)
      | (Inr u, w1) \<Rightarrow>
          (case with_open env info_path (write_info env sf)
                  (record_event (Print (''Writing info page to '' @ info_path @ ''...'')) w1) of
             (Inl e, w2) \<Rightarrow> (Inl (NameError ''IOException''), w2)
           | (Inr u, w2) \<Rightarrow> (Inr u, w2)))"
proof -
  have "FileBackend_store env options sf w =
     try_except
       (bind_io (py_print (''Writing to '' @ path @ ''...'')) (\<lambda>_.
        bind_io (with_open env path (write_file env sf)) (\<lambda>_.
        bind_io (py_print (''Writing info page to '' @ info_path @ ''...'')) (\<lambda>_.
        with_open env info_path (write_info env sf)))))
       ''IOException''
       (\<lambda>text. lift (Inl (BackendException (''Received IOException: '' @ text) display))) w"
    using assms by (simp add: FileBackend_store_def bind_io_lift)
  also have "\<dots> =
     (case with_open env path (write_file env sf)
             (record_event (Print (''Writing to '' @ path @ ''...'')) w) of
        (Inl e, w1) \<Rightarrow> (Inl (NameError ''IOException''), w1)
      | (Inr u, w1) \<Rightarrow>
          (case with_open env info_path (write_info env sf)
                  (record_event (Print (''Writing info page to '' @ info_path @ ''...'')) w1) of
             (Inl e, w2) \<Rightarrow> (Inl (NameError ''IOException''), w2)
           | (Inr u, w2) \<Rightarrow> (Inr u, w2)))"
    unfolding try_except_IOException bind_io_print
    by (simp add: bind_io_def py_print_def split: prod.splits sum.splits)
  finally show ?thesis .
qed

lemma FileBackend_store_scenario:
  "FileBackend_store env_ok file_options upload0 world0 =
     (Inr (), snd (FileBackend_store env_ok file_options upload0 world0))"
  by (simp add: file_defs io_defs env_ok_def file_options_def upload0_def world0_def)

subsection \<open>FileBackend: I/O failures\<close>

text \<open>
  C1: an I/O failure during \<open>FileBackend.store\<close> should come out as a BackendException
  with the generic display message. It does not: with the options of the end-to-end
  scenario and a destination that cannot be opened, \<open>store\<close> raises
  \<open>NameError('IOException')\<close>.
\<close>

theorem FileBackend_store_open_failure_is_NameError:
  "fst (FileBackend_store (env_open_fails ''/data/files/abc123'') file_options upload0 world0)
     = Inl (NameError ''IOException'')"
  by (simp add: file_defs io_defs env_open_fails_def env_ok_def file_options_def upload0_def
      world0_def)

subsection \<open>FileBackend: what a successful store leaves behind\<close>

text \<open>
  C2, as stated: after a successful store the file path holds the concatenation of the
  chunks. This fails when both templates resolve to the same path: the info page is
  written second and truncates the file, so the one path holds the info page.
\<close>

theorem FileBackend_store_same_path_counterexample:
  "format_option same_path_options ''file_path'' (name upload0) = Inr ''/data/abc123'' \<and>
   format_option same_path_options ''info_path'' (name upload0) = Inr ''/data/abc123'' \<and>
   fst (FileBackend_store env_ok same_path_options upload0 world0) = Inr () \<and>
   fs (snd (FileBackend_store env_ok same_path_options upload0 world0)) ''/data/abc123''
     \<noteq> Some (concat (chunks (file_obj upload0)))"
  by (simp add: file_defs io_defs env_ok_def same_path_options_def upload0_def world0_def
      utf8_encode_def utf8_char_def)

text \<open>
  The same happens when the two templates resolve to different paths that name one file,
  as \<open>/data/abc123\<close> and \<open>/data//abc123\<close> do.
\<close>

lemma FileBackend_store_alias:
  "format_option alias_options ''file_path'' (name upload0) = Inr ''/data/abc123'' \<and>
   format_option alias_options ''info_path'' (name upload0) = Inr ''/data//abc123'' \<and>
   file_of env_ok ''/data/abc123'' = file_of env_ok ''/data//abc123'' \<and>
   fst (FileBackend_store env_ok alias_options upload0 world0) = Inr () \<and>
   fs (snd (FileBackend_store env_ok alias_options upload0 world0))
      (file_of env_ok ''/data/abc123'') = Some (utf8_encode (info_html upload0))"
  by (simp add: file_defs io_defs env_ok_def alias_options_def upload0_def world0_def)

text \<open>
  C2, amended: a successful store has resolved both templates with the upload's name; it
  has opened and written these two paths and no other, and no file but the two they name
  has changed; the file that the info path names holds the UTF-8 encoding of the info
  page; and when the two paths name different files, the file that the file path names
  holds the concatenation of the chunks.
\<close>

theorem FileBackend_store_success:
  assumes "FileBackend_store env options sf w = (Inr (), w')"
  shows "\<exists>path info_path.
     format_option options ''file_path'' (name sf) = Inr path \<and>
     format_option options ''info_path'' (name sf) = Inr info_path \<and>
     fs w' (file_of env info_path) = Some (utf8_encode (info_html sf)) \<and>
     (file_of env path \<noteq> file_of env info_path \<longrightarrow> fs w' (file_of env path) = Some (concat (chunks (file_obj sf)))) \<and>
     (\<forall>q. q \<noteq> file_of env path \<and> q \<noteq> file_of env info_path \<longrightarrow> fs w' q = fs w q) \<and>
     trace w' = trace w @
       [Print (''Writing to '' @ path @ ''...''), Open path] @
       map (Write path) (chunks (file_obj sf)) @
       [Print (''Writing info page to '' @ info_path @ ''...''), Open info_path,
        Write info_path (utf8_encode (info_html sf))]"
proof -
  from assms obtain path where p: "format_option options ''file_path'' (name sf) = Inr path"
    by (cases "format_option options ''file_path'' (name sf)")
      (simp_all add: FileBackend_store_def bind_io_lift)
  from assms p obtain info_path
    where ip: "format_option options ''info_path'' (name sf) = Inr info_path"
    by (cases "format_option options ''info_path'' (name sf)")
      (simp_all add: FileBackend_store_def bind_io_lift)
  define w0 where "w0 = record_event (Print (''Writing to '' @ path @ ''...'')) w"
  obtain r1 w1 where s1: "with_open env path (write_file env sf) w0 = (r1, w1)"
    by (cases "with_open env path (write_file env sf) w0")
  define w1' where "w1' = record_event (Print (''Writing info page to '' @ info_path @ ''...'')) w1"
  obtain r2 w2 where s2: "with_open env info_path (write_info env sf) w1' = (r2, w2)"
    by (cases "with_open env info_path (write_info env sf) w1'")
  from assms s1 s2 have r: "r1 = Inr ()" "r2 = Inr ()" "w2 = w'"
    unfolding FileBackend_store_resolved [OF p ip] w0_def [symmetric]
    by (auto simp: w1'_def split: sum.splits)
  from with_open_write_file [OF s1] r(1) have f:
    "trace w1 = trace w0 @ Open path # map (Write path) (chunks (file_obj sf))"
    "\<forall>q. q \<noteq> file_of env path \<longrightarrow> fs w1 q = fs w0 q"
    "fs w1 (file_of env path) = Some (concat (chunks (file_obj sf)))"
    by auto
  from with_open_write_info [OF s2] r(2) have i:
    "trace w2 = trace w1' @ [Open info_path, Write info_path (utf8_encode (info_html sf))]"
    "\<forall>q. q \<noteq> file_of env info_path \<longrightarrow> fs w2 q = fs w1' q"
    "fs w2 (file_of env info_path) = Some (utf8_encode (info_html sf))"
    by auto
  have w0: "fs w0 = fs w" "trace w0 = trace w @ [Print (''Writing to '' @ path @ ''...'')]"
    by (simp_all add: w0_def record_event_def)
  have w1': "fs w1' = fs w1"
    "trace w1' = trace w1 @ [Print (''Writing info page to '' @ info_path @ ''...'')]"
    by (simp_all add: w1'_def record_event_def)
  show ?thesis
  proof (rule exI [of _ path], rule exI [of _ info_path], intro conjI)
    show "format_option options ''file_path'' (name sf) = Inr path" by (rule p)
    show "format_option options ''info_path'' (name sf) = Inr info_path" by (rule ip)
    show "fs w' (file_of env info_path) = Some (utf8_encode (info_html sf))"
      using i(3) r(3) by simp
    show "file_of env path \<noteq> file_of env info_path \<longrightarrow> fs w' (file_of env path) = Some (concat (chunks (file_obj sf)))"
      using i(2) f(3) w1'(1) r(3) by auto
    show "\<forall>q. q \<noteq> file_of env path \<and> q \<noteq> file_of env info_path \<longrightarrow> fs w' q = fs w q"
      using i(2) f(2) w0(1) w1'(1) r(3) by auto
    show "trace w' = trace w @
       [Print (''Writing to '' @ path @ ''...''), Open path] @
       map (Write path) (chunks (file_obj sf)) @
       [Print (''Writing info page to '' @ info_path @ ''...''), Open info_path,
        Write info_path (utf8_encode (info_html sf))]"
      using i(1) f(1) w0(2) w1'(2) r(3) by simp
  qed
qed

theorem FileBackend_store_success_witness:
  "fs (snd (FileBackend_store env_ok file_options upload0 world0)) ''/data/info/abc123.html''
     = Some (utf8_encode ''<html>info</html>'') \<and>
   fs (snd (FileBackend_store env_ok file_options upload0 world0)) ''/data/files/abc123''
     = Some (map of_char ''hello test'')"
proof -
  have p: "format_option file_options ''file_path'' (name upload0) = Inr ''/data/files/abc123''"
    by (simp add: file_defs file_options_def upload0_def)
  have ip: "format_option file_options ''info_path'' (name upload0) = Inr ''/data/info/abc123.html''"
    by (simp add: file_defs file_options_def upload0_def)
  have c: "concat (chunks (file_obj upload0)) = map of_char ''hello test''"
    "info_html upload0 = ''<html>info</html>''"
    by (simp_all add: upload0_def)
  have k: "file_of env_ok ''/data/files/abc123'' = ''/data/files/abc123''"
    "file_of env_ok ''/data/info/abc123.html'' = ''/data/info/abc123.html''"
    by (simp_all add: env_ok_def)
  from FileBackend_store_success [OF FileBackend_store_scenario] p ip c k show ?thesis
    by auto
qed

subsection \<open>FileBackend: the file is written before the info page\<close>

text \<open>
  C3: with both paths resolved, (1) when the \<open>with\<close> block of the file raises, \<open>store\<close>
  raises in the world that block left: the only calls made are the first print, the open
  of the file path and writes to it, and when the info path names another file, that
  file is untouched; (2) when the block of the file succeeds and the block of the info
  page raises, \<open>store\<close> raises as well, nothing is removed, the file that the file path
  names still exists, and when the info path names another file it still holds the whole
  upload. The exception that \<open>store\<close> raises is the NameError of the \<open>except\<close> clause.
\<close>

theorem FileBackend_store_file_before_info:
  assumes "format_option options ''file_path'' (name sf) = Inr path"
    and "format_option options ''info_path'' (name sf) = Inr info_path"
  shows
    "(with_open env path (write_file env sf)
        (record_event (Print (''Writing to '' @ path @ ''...'')) w) = (Inl e, w1) \<longrightarrow>
      FileBackend_store env options sf w = (Inl (NameError ''IOException''), w1) \<and>
      (\<exists>k. k \<le> length (chunks (file_obj sf)) \<and>
         trace w1 = trace w @ [Print (''Writing to '' @ path @ ''...''), Open path] @
           map (Write path) (take k (chunks (file_obj sf)))) \<and>
      (file_of env info_path \<noteq> file_of env path \<longrightarrow>
         fs w1 (file_of env info_path) = fs w (file_of env info_path))) \<and>
     (with_open env path (write_file env sf)
        (record_event (Print (''Writing to '' @ path @ ''...'')) w) = (Inr (), w1) \<and>
      with_open env info_path (write_info env sf)
        (record_event (Print (''Writing info page to '' @ info_path @ ''...'')) w1)
          = (Inl e, w2) \<longrightarrow>
      FileBackend_store env options sf w = (Inl (NameError ''IOException''), w2) \<and>
      fs w2 (file_of env path) \<noteq> None \<and>
      (file_of env path \<noteq> file_of env info_path \<longrightarrow>
         fs w2 (file_of env path) = Some (concat (chunks (file_obj sf)))) \<and>
      (\<exists>evs. (evs = [] \<or> evs = [Write info_path (utf8_encode (info_html sf))]) \<and>
         trace w2 = trace w @ [Print (''Writing to '' @ path @ ''...''), Open path] @
           map (Write path) (chunks (file_obj sf)) @
           [Print (''Writing info page to '' @ info_path @ ''...''), Open info_path] @ evs))"
proof (intro conjI impI)
  define w0 where "w0 = record_event (Print (''Writing to '' @ path @ ''...'')) w"
  have w0: "fs w0 = fs w" "trace w0 = trace w @ [Print (''Writing to '' @ path @ ''...'')]"
    by (simp_all add: w0_def record_event_def)
  {
    assume s1: "with_open env path (write_file env sf)
        (record_event (Print (''Writing to '' @ path @ ''...'')) w) = (Inl e, w1)"
    then show "FileBackend_store env options sf w = (Inl (NameError ''IOException''), w1)"
      by (simp add: FileBackend_store_resolved [OF assms])
    from with_open_write_file [OF s1 [folded w0_def]] obtain k
      where k: "k \<le> length (chunks (file_obj sf))"
        "trace w1 = trace w0 @ Open path # map (Write path) (take k (chunks (file_obj sf)))"
        "\<forall>q. q \<noteq> file_of env path \<longrightarrow> fs w1 q = fs w0 q"
      by blast
    from k(1,2) w0(2)
    show "\<exists>k. k \<le> length (chunks (file_obj sf)) \<and>
         trace w1 = trace w @ [Print (''Writing to '' @ path @ ''...''), Open path] @
           map (Write path) (take k (chunks (file_obj sf)))"
      by (intro exI [of _ k]) simp
    from k(3) w0(1) show "fs w1 (file_of env info_path) = fs w (file_of env info_path)"
      if "file_of env info_path \<noteq> file_of env path"
      using that by simp
  }
  {
    assume s: "with_open env path (write_file env sf)
        (record_event (Print (''Writing to '' @ path @ ''...'')) w) = (Inr (), w1) \<and>
      with_open env info_path (write_info env sf)
        (record_event (Print (''Writing info page to '' @ info_path @ ''...'')) w1)
          = (Inl e, w2)"
    define w1' where
      "w1' = record_event (Print (''Writing info page to '' @ info_path @ ''...'')) w1"
    have w1': "fs w1' = fs w1"
      "trace w1' = trace w1 @ [Print (''Writing info page to '' @ info_path @ ''...'')]"
      by (simp_all add: w1'_def record_event_def)
    from s have s1: "with_open env path (write_file env sf) w0 = (Inr (), w1)"
      and s2: "with_open env info_path (write_info env sf) w1' = (Inl e, w2)"
      by (simp_all add: w0_def w1'_def)
    from s show "FileBackend_store env options sf w = (Inl (NameError ''IOException''), w2)"
      by (simp add: FileBackend_store_resolved [OF assms])
    from with_open_write_file [OF s1] have f:
      "trace w1 = trace w0 @ Open path # map (Write path) (chunks (file_obj sf))"
      "fs w1 (file_of env path) = Some (concat (chunks (file_obj sf)))"
      by auto
    from with_open_write_info [OF s2] obtain evs where i:
      "evs = [] \<or> evs = [Write info_path (utf8_encode (info_html sf))]"
      "trace w2 = trace w1' @ Open info_path # evs"
      "\<forall>q. q \<noteq> file_of env info_path \<longrightarrow> fs w2 q = fs w1' q"
      "fs w1' (file_of env info_path) \<noteq> None \<longrightarrow> fs w2 (file_of env info_path) \<noteq> None"
      by blast
    from i(3,4) f(2) w1'(1) show "fs w2 (file_of env path) \<noteq> None"
      by (cases "file_of env path = file_of env info_path") auto
    from i(3) f(2) w1'(1) show "fs w2 (file_of env path) = Some (concat (chunks (file_obj sf)))"
      if "file_of env path \<noteq> file_of env info_path"
      using that by simp
    from i(1,2) f(1) w0(2) w1'(2)
    show "\<exists>evs. (evs = [] \<or> evs = [Write info_path (utf8_encode (info_html sf))]) \<and>
         trace w2 = trace w @ [Print (''Writing to '' @ path @ ''...''), Open path] @
           map (Write path) (chunks (file_obj sf)) @
           [Print (''Writing info page to '' @ info_path @ ''...''), Open info_path] @ evs"
      by (intro exI [of _ evs]) simp
  }
qed

theorem FileBackend_store_file_before_info_witness:
  "fst (FileBackend_store (env_open_fails ''/data/files/abc123'') file_options upload0 world0)
     = Inl (NameError ''IOException'') \<and>
   fs (snd (FileBackend_store (env_open_fails ''/data/files/abc123'') file_options upload0
     world0)) ''/data/info/abc123.html'' = None \<and>
   fst (FileBackend_store (env_open_fails ''/data/info/abc123.html'') file_options upload0
     world0) = Inl (NameError ''IOException'') \<and>
   fs (snd (FileBackend_store (env_open_fails ''/data/info/abc123.html'') file_options upload0
     world0)) ''/data/files/abc123'' = Some (map of_char ''hello test'')"
proof -
  let ?p = "''/data/files/abc123''" and ?ip = "''/data/info/abc123.html''"
  let ?E1 = "env_open_fails ?p" and ?E2 = "env_open_fails ?ip"
  let ?w0 = "record_event (Print (''Writing to '' @ ?p @ ''...'')) world0"
  let ?w1 = "snd (with_open ?E1 ?p (write_file ?E1 upload0) ?w0)"
  let ?v1 = "snd (with_open ?E2 ?p (write_file ?E2 upload0) ?w0)"
  let ?v1' = "record_event (Print (''Writing info page to '' @ ?ip @ ''...'')) ?v1"
  let ?v2 = "snd (with_open ?E2 ?ip (write_info ?E2 upload0) ?v1')"
  have p: "format_option file_options ''file_path'' (name upload0) = Inr ?p"
    by (simp add: file_defs file_options_def upload0_def)
  have ip: "format_option file_options ''info_path'' (name upload0) = Inr ?ip"
    by (simp add: file_defs file_options_def upload0_def)
  have c: "concat (chunks (file_obj upload0)) = map of_char ''hello test''"
    by (simp add: upload0_def)
  have h1: "with_open ?E1 ?p (write_file ?E1 upload0) ?w0
      = (Inl (OSError ''Permission denied''), ?w1)"
    by (simp add: file_defs io_defs env_open_fails_def env_ok_def world0_def)
  have e1: "fs world0 ?ip = None" "?ip \<noteq> ?p"
    "file_of ?E1 ?p = ?p" "file_of ?E1 ?ip = ?ip" "file_of ?E2 ?p = ?p" "file_of ?E2 ?ip = ?ip"
    by (simp_all add: world0_def env_open_fails_def env_ok_def)
  have h2: "with_open ?E2 ?p (write_file ?E2 upload0) ?w0 = (Inr (), ?v1)"
    by (simp add: file_defs io_defs env_open_fails_def env_ok_def world0_def upload0_def)
  have h3: "with_open ?E2 ?ip (write_info ?E2 upload0) ?v1'
      = (Inl (OSError ''Permission denied''), ?v2)"
    by (simp add: file_defs io_defs env_open_fails_def env_ok_def world0_def upload0_def)
  note t1 = FileBackend_store_file_before_info [OF p ip, of ?E1 world0
      "OSError ''Permission denied''" ?w1]
  note t2 = FileBackend_store_file_before_info [OF p ip, of ?E2 world0
      "OSError ''Permission denied''" ?v1 ?v2]
  from t1 h1 e1 have
    "FileBackend_store ?E1 file_options upload0 world0 = (Inl (NameError ''IOException''), ?w1)"
    "fs ?w1 ?ip = None"
    by auto
  moreover from t2 h2 h3 e1 c have
    "FileBackend_store ?E2 file_options upload0 world0 = (Inl (NameError ''IOException''), ?v2)"
    "fs ?v2 ?p = Some (map of_char ''hello test'')"
    by auto
  ultimately show ?thesis by simp
qed

text \<open>
  When the two paths name one file, a failure shows on both: with the file path
  \<open>/data/abc123\<close> and the info path \<open>/data//abc123\<close>, a failed write of the info page
  leaves the one file with what that write left of it, not with the upload; and a failed
  write of the upload replaces what the info path held before.
\<close>

lemma FileBackend_store_alias_failures:
  "fst (FileBackend_store (env_write_fails ''/data//abc123'' (map of_char ''<html>''))
          alias_options upload0 world0) = Inl (NameError ''IOException'') \<and>
   fs (snd (FileBackend_store (env_write_fails ''/data//abc123'' (map of_char ''<html>''))
          alias_options upload0 world0)) ''/data/abc123'' = Some (map of_char ''<html>'') \<and>
   fst (FileBackend_store (env_write_fails ''/data/abc123'' (map of_char ''hell''))
          alias_options upload0 world_old_info) = Inl (NameError ''IOException'') \<and>
   fs (snd (FileBackend_store (env_write_fails ''/data/abc123'' (map of_char ''hell''))
          alias_options upload0 world_old_info)) (collapse_slashes ''/data//abc123'')
     = Some (map of_char ''hell'')"
  by (simp add: file_defs io_defs env_write_fails_def env_ok_def alias_options_def upload0_def
      world0_def world_old_info_def)

subsection \<open>S3CommandLineBackend\<close>




lemma posted_append: "posted (xs @ ys) = posted xs @ posted ys"
  by (induction xs rule: posted.induct) simp_all






























subsection \<open>KloudlessBackend\<close>

lemma url_format:
  "format_kw ''account'' (API_ENDPOINT @ API_RESOURCE_FILE) a
     = Inr (''https://api.kloudless.com/v0/accounts/'' @ a @ ''/files'')"
  by (simp add: format_kw_def API_ENDPOINT_def API_RESOURCE_FILE_def resolve_field_def)

lemma upload_resolved:
  assumes "options_get options ''account_key'' = Inr key"
    and "options_get options ''account_id'' = Inr account"
    and "http_post env
           \<lparr>url = ''https://api.kloudless.com/v0/accounts/'' @ account @ ''/files'',
            metadata = [(''name'', nm), (''parent_id'', parent_id)],
            headers = [(''Authorization'', ''AccountKey '' @ key)],
            files = [(''file'', part)]\<rparr> = Inr resp"
  shows "upload env options nm parent_id part w =
     (if status_code resp \<noteq> 201 then
        (Inl (BackendException (''Received '' @ str_int (status_code resp) @ '' status code'')
           display),
         w\<lparr>trace := trace w @
           [Post \<lparr>url = ''https://api.kloudless.com/v0/accounts/'' @ account @ ''/files'',
                  metadata = [(''name'', nm), (''parent_id'', parent_id)],
                  headers = [(''Authorization'', ''AccountKey '' @ key)],
                  files = [(''file'', part)]\<rparr>,
            Print (''Got unexpected status code from Kloudless: ''
                     @ str_int (status_code resp)),
            Print (''Response: '' @ text_of resp)]\<rparr>)
      else
        (Inr (),
         w\<lparr>trace := trace w @
           [Post \<lparr>url = ''https://api.kloudless.com/v0/accounts/'' @ account @ ''/files'',
                  metadata = [(''name'', nm), (''parent_id'', parent_id)],
                  headers = [(''Authorization'', ''AccountKey '' @ key)],
                  files = [(''file'', part)]\<rparr>]\<rparr>))"
  using assms(3) unfolding upload_def
  by (simp add: assms(1,2) url_format bind_io_def requests_post_def py_print_def lift_def
      record_event_def)

lemma kloudless_example:
  "options_get kloudless_options ''account_key'' = Inr ''secret''"
  "options_get kloudless_options ''account_id'' = Inr ''42''"
  "format_option kloudless_options ''file_name'' (name upload0) = Inr ''abc123''"
  "options_get kloudless_options ''file_parent_id'' = Inr ''folder1''"
  "http_post (env_http n body) req = Inr \<lparr>status_code = n, text_of = body\<rparr>"
  "str_int 500 = ''500''"
  "posted (trace world0) = []"
  by (simp_all add: options_get_def kloudless_options_def file_defs upload0_def env_http_def
      env_ok_def str_int_def str_nat.simps digit_char_def world0_def)

text \<open>
  C6: with the account key and id configured and a response received, \<open>upload\<close> sends one
  request and returns normally exactly when the status code is 201. On any other status
  it raises a BackendException whose internal message is \<open>Received <status> status code\<close>:
  it names the status and takes nothing from the body of the response. When this happens
  to the upload of the file, \<open>store\<close> raises that exception and the request for the file is
  the only one sent.
\<close>

theorem KloudlessBackend_upload_status:
  fixes account nm parent_id key :: string and part :: file_part and req :: request
  defines "req \<equiv>
      \<lparr>url = ''https://api.kloudless.com/v0/accounts/'' @ account @ ''/files'',
       metadata = [(''name'', nm), (''parent_id'', parent_id)],
       headers = [(''Authorization'', ''AccountKey '' @ key)],
       files = [(''file'', part)]\<rparr>"
  assumes "options_get options ''account_key'' = Inr key"
    and "options_get options ''account_id'' = Inr account"
    and "http_post env req = Inr resp"
  shows
    "(fst (upload env options nm parent_id part w) = Inr () \<longleftrightarrow> status_code resp = 201) \<and>
     posted (trace (snd (upload env options nm parent_id part w))) = posted (trace w) @ [req] \<and>
     (status_code resp \<noteq> 201 \<longrightarrow>
        fst (upload env options nm parent_id part w) =
          Inl (BackendException (''Received '' @ str_int (status_code resp) @ '' status code'')
            display) \<and>
        (format_option options ''file_name'' (name sf) = Inr nm \<and>
         options_get options ''file_parent_id'' = Inr parent_id \<and>
         part = Upload_part (file_obj sf) \<longrightarrow>
           fst (KloudlessBackend_store env options sf w) =
             Inl (BackendException (''Received '' @ str_int (status_code resp) @ '' status code'')
               display) \<and>
           posted (trace (snd (KloudlessBackend_store env options sf w)))
             = posted (trace w) @ [req]))"
proof -
  note u = upload_resolved [OF assms(2,3) assms(4) [unfolded req_def], of w, folded req_def]
  have a: "fst (upload env options nm parent_id part w) = Inr () \<longleftrightarrow> status_code resp = 201"
    unfolding u by simp
  have b: "posted (trace (snd (upload env options nm parent_id part w)))
      = posted (trace w) @ [req]"
    unfolding u by (simp add: posted_append)
  have c: "fst (upload env options nm parent_id part w) =
      Inl (BackendException (''Received '' @ str_int (status_code resp) @ '' status code'')
        display)" if "status_code resp \<noteq> 201"
    unfolding u using that by simp
  have d: "KloudlessBackend_store env options sf w = upload env options nm parent_id part w"
    if "status_code resp \<noteq> 201" "format_option options ''file_name'' (name sf) = Inr nm"
      "options_get options ''file_parent_id'' = Inr parent_id" "part = Upload_part (file_obj sf)"
  proof -
    have "Kloudless_store_artifact env options sf (''file'', Upload_part (file_obj sf)) w
        = upload env options nm parent_id part w"
      using that(2-4) by (simp add: Kloudless_store_artifact_def bind_io_lift)
    moreover from that(1) have "\<exists>e w'. upload env options nm parent_id part w = (Inl e, w')"
      unfolding u by simp
    ultimately show ?thesis
      by (auto simp: KloudlessBackend_store_def Kloudless_files_def bind_io_def)
  qed
  from a b c d show ?thesis by metis
qed

theorem KloudlessBackend_upload_status_witness:
  "fst (KloudlessBackend_store (env_http 500 ''quota exceeded'') kloudless_options upload0 world0)
     = Inl (BackendException ''Received 500 status code'' display) \<and>
   posted (trace (snd (KloudlessBackend_store (env_http 500 ''quota exceeded'')
      kloudless_options upload0 world0)))
     = [\<lparr>url = ''https://api.kloudless.com/v0/accounts/42/files'',
         metadata = [(''name'', ''abc123''), (''parent_id'', ''folder1'')],
         headers = [(''Authorization'', ''AccountKey secret'')],
         files = [(''file'', Upload_part (file_obj upload0))]\<rparr>] \<and>
   fst (upload (env_http 201 ''created'') kloudless_options ''abc123'' ''folder1''
      (Upload_part (file_obj upload0)) world0) = Inr ()"
proof -
  note bad = KloudlessBackend_upload_status [OF kloudless_example(1,2) kloudless_example(5),
      of 500 "''quota exceeded''" "''abc123''" "''folder1''" "Upload_part (file_obj upload0)"
        world0 upload0]
  note good = KloudlessBackend_upload_status [OF kloudless_example(1,2) kloudless_example(5),
      of 201 "''created''" "''abc123''" "''folder1''" "Upload_part (file_obj upload0)"
        world0 upload0]
  have n: "status_code \<lparr>status_code = 500, text_of = ''quota exceeded''\<rparr> \<noteq> 201"
    "status_code \<lparr>status_code = 500, text_of = ''quota exceeded''\<rparr> = 500"
    "status_code \<lparr>status_code = 201, text_of = ''created''\<rparr> = 201"
    by simp_all
  from good n(3) have g:
    "fst (upload (env_http 201 ''created'') kloudless_options ''abc123'' ''folder1''
      (Upload_part (file_obj upload0)) world0) = Inr ()"
    by blast
  from bad n(1) kloudless_example(3,4) have b:
    "fst (KloudlessBackend_store (env_http 500 ''quota exceeded'') kloudless_options upload0
       world0) = Inl (BackendException
         (''Received '' @ str_int (status_code \<lparr>status_code = 500,
            text_of = ''quota exceeded''\<rparr>) @ '' status code'') display)"
    "posted (trace (snd (KloudlessBackend_store (env_http 500 ''quota exceeded'')
      kloudless_options upload0 world0)))
     = posted (trace world0) @
       [\<lparr>url = ''https://api.kloudless.com/v0/accounts/'' @ ''42'' @ ''/files'',
         metadata = [(''name'', ''abc123''), (''parent_id'', ''folder1'')],
         headers = [(''Authorization'', ''AccountKey '' @ ''secret'')],
         files = [(''file'', Upload_part (file_obj upload0))]\<rparr>]"
    by blast+
  from g b show ?thesis
    unfolding n(2) kloudless_example(6,7) by simp
qed

subsection \<open>DebugBackend\<close>

text \<open>
  C7: \<open>DebugBackend.store\<close> returns normally for every upload, options, environment and
  world. It prints three lines and leaves the file system as it was: no file is opened,
  written or removed, no command is run and no request is sent.
\<close>

theorem DebugBackend_store_succeeds:
  "DebugBackend_store env options stored_file w =
     (Inr (),
      w\<lparr>trace := trace w @
         [Print ''Storing file:'',
          Print ([CHR 0x09] @ ''Name: '' @ name stored_file),
          Print ([CHR 0x09] @ ''Size: ''
                   @ get_human_size env (file_size (file_obj stored_file)))]\<rparr>)"
  by (simp add: DebugBackend_store_def io_defs)

text \<open>
  C10: \<open>DebugBackend.store\<close> reads only the name and the size of the upload: two uploads
  that agree on both give the same result and the same world, whatever their content,
  their info page and the options of the two backends.
\<close>

theorem DebugBackend_store_depends_on_name_and_size:
  assumes "name sf1 = name sf2"
    and "file_size (file_obj sf1) = file_size (file_obj sf2)"
  shows "DebugBackend_store env options1 sf1 w = DebugBackend_store env options2 sf2 w"
  using assms by (simp add: DebugBackend_store_def)

theorem DebugBackend_store_depends_on_name_and_size_witness:
  "name upload0 = name upload1 \<and>
   file_size (file_obj upload0) = file_size (file_obj upload1) \<and>
   chunks (file_obj upload0) \<noteq> chunks (file_obj upload1) \<and>
   info_html upload0 \<noteq> info_html upload1 \<and>
   DebugBackend_store env_ok file_options upload0 world0 =
   DebugBackend_store env_ok Map.empty upload1 world0"
proof -
  have n: "name upload0 = name upload1"
    by (simp add: upload0_def upload1_def)
  have s: "file_size (file_obj upload0) = file_size (file_obj upload1)"
    by (simp add: upload0_def upload1_def)
  have d: "chunks (file_obj upload0) \<noteq> chunks (file_obj upload1)"
    "info_html upload0 \<noteq> info_html upload1"
    by (simp_all add: upload0_def upload1_def)
  from DebugBackend_store_depends_on_name_and_size [OF n s] n s d show ?thesis
    by blast
qed

subsection \<open>The registry\<close>

text \<open>
  C8: the registry has exactly the four names \<open>file\<close>, \<open>s3cli\<close>, \<open>kloudless\<close> and \<open>debug\<close>.
  \<open>get_backend\<close> returns the instance of the class registered under the configured name,
  constructed with the configured options, and raises a KeyError for any other name.
\<close>

theorem get_backend_registry:
  "dom backends = {''file'', ''s3cli'', ''kloudless'', ''debug''} \<and>
   get_backend conf =
     (if conf_name conf = ''file'' then Inr (FileBackend (conf_options conf))
      else if conf_name conf = ''s3cli'' then Inr (S3CommandLineBackend (conf_options conf))
      else if conf_name conf = ''kloudless'' then Inr (KloudlessBackend (conf_options conf))
      else if conf_name conf = ''debug'' then Inr (DebugBackend (conf_options conf))
      else Inl (KeyError (conf_name conf)))"
proof -
  have "dom backends = {''file'', ''s3cli'', ''kloudless'', ''debug''}"
    unfolding backends_def by auto
  moreover have "get_backend conf =
     (if conf_name conf = ''file'' then Inr (FileBackend (conf_options conf))
      else if conf_name conf = ''s3cli'' then Inr (S3CommandLineBackend (conf_options conf))
      else if conf_name conf = ''kloudless'' then Inr (KloudlessBackend (conf_options conf))
      else if conf_name conf = ''debug'' then Inr (DebugBackend (conf_options conf))
      else Inl (KeyError (conf_name conf)))"
    unfolding get_backend_def backends_def by simp
  ultimately show ?thesis by simp
qed

text \<open>
  The end-to-end scenario: the backend configured as \<open>file\<close> stores the upload \<open>abc123\<close>
  with content \<open>hello test\<close> at the two paths of the options.
\<close>

lemma end_to_end_scenario:
  "get_backend \<lparr>conf_name = ''file'', conf_options = file_options\<rparr> = Inr (FileBackend file_options) \<and>
   fst (store env_ok (FileBackend file_options) upload0 world0) = Inr () \<and>
   fs (snd (store env_ok (FileBackend file_options) upload0 world0)) ''/data/files/abc123''
     = Some (map of_char ''hello test'') \<and>
   fs (snd (store env_ok (FileBackend file_options) upload0 world0)) ''/data/info/abc123.html''
     = Some (map of_char ''<html>info</html>'')"
  by (simp add: get_backend_def backends_def file_defs io_defs env_ok_def file_options_def
      upload0_def world0_def utf8_encode_def utf8_char_def)

end
